theory Spec2Isabelle
  imports Main "HOL-Library.Word"
begin

section \<open>Go standard library: strings, strconv, time\<close>

text \<open>
  A Go string is a sequence of bytes; it is modelled as a \<open>string\<close> (a list of 8-bit
  characters), so \<open>length\<close> is Go's \<open>len\<close>.
\<close>

text \<open>
  \<open>strings.Split(s, sep)\<close> for a one-byte separator: the pieces between the
  occurrences of the separator, one more piece than there are separators. The empty
  string gives one empty piece.
\<close>

fun Split :: "char \<Rightarrow> string \<Rightarrow> string list" where
  "Split sep [] = [[]]"
| "Split sep (c # cs) =
     (if c = sep then [] # Split sep cs
      else (case Split sep cs of [] \<Rightarrow> [[c]] | p # ps \<Rightarrow> (c # p) # ps))"

text \<open>
  \<open>strings.ToLower\<close> on the ASCII range: the bytes \<open>A\<close>..\<open>Z\<close> move to \<open>a\<close>..\<open>z\<close>,
  the other ASCII bytes stay. Bytes above 127 are left alone here; Go maps the letters
  of other scripts to their lower case, none of which is an ASCII letter of the word
  \<open>bearer\<close>, so the comparison made by the middleware is not affected.
\<close>

definition toLowerByte :: "char \<Rightarrow> char" where
  "toLowerByte c =
     (case map_of (zip ''ABCDEFGHIJKLMNOPQRSTUVWXYZ'' ''abcdefghijklmnopqrstuvwxyz'') c of
        Some l \<Rightarrow> l
      | None \<Rightarrow> c)"

definition ToLower :: "string \<Rightarrow> string" where
  "ToLower s = map toLowerByte s"

text \<open>
  \<open>strconv.ParseUint(s, 10, 64)\<close>: a non-empty run of decimal digits, no sign, whose
  value fits 64 bits; anything else is an error.
\<close>

definition isDigit :: "char \<Rightarrow> bool" where
  "isDigit c = (let n = (of_char c :: nat) in 48 \<le> n \<and> n \<le> 57)"

definition digitVal :: "char \<Rightarrow> nat" where
  "digitVal c = (of_char c :: nat) - 48"

definition decimalVal :: "string \<Rightarrow> nat" where
  "decimalVal s = foldl (\<lambda>acc c. 10 * acc + digitVal c) 0 s"

definition ParseUint :: "string \<Rightarrow> 64 word option" where
  "ParseUint s =
     (if s = [] \<or> \<not> list_all isDigit s then None
      else if decimalVal s < 2 ^ 64 then Some (word_of_nat (decimalVal s))
      else None)"

text \<open>
  A \<open>time.Time\<close> is the number of nanoseconds since the Unix epoch and a
  \<open>time.Duration\<close> a number of nanoseconds, both unbounded integers.
\<close>

type_synonym Time = int
type_synonym Duration = int

definition Second :: Duration where
  "Second = 1000000000"

definition Minute :: Duration where
  "Minute = 60 * Second"

section \<open>The token library (github.com/golang-jwt/jwt/v5)\<close>

text \<open>
  The library is not part of the repository. It is modelled at the level of its
  documented behaviour, with the cryptography idealised: an HMAC tag is a term built
  from the algorithm name, the key and the signed content, so two tags are equal exactly
  when all three agree. The compact serialisation (three base64url segments holding
  JSON) is not modelled: a token string is represented by what the library's parser
  reads out of it.
\<close>

text \<open>
  \<open>jwt.NewNumericDate\<close> truncates the time to \<open>jwt.TimePrecision\<close>, one second
  unless changed, which this program never does.
\<close>

definition NewNumericDate :: "Time \<Rightarrow> Time" where
  "NewNumericDate t = t - t mod Second"

record RegisteredClaims =
  Issuer :: string
  ExpiresAt :: "Time option"
  NotBefore :: "Time option"
  IssuedAt :: "Time option"

record Claims = RegisteredClaims +
  UserID :: "64 word"
  Email :: string

datatype SigningMethod = SigningMethodHMAC string | SigningMethodOther string

definition SigningMethodHS256 :: SigningMethod where
  "SigningMethodHS256 = SigningMethodHMAC ''HS256''"

text \<open>The registry of signing methods, looked up by the \<open>alg\<close> header.\<close>

definition GetSigningMethod :: "string \<Rightarrow> SigningMethod option" where
  "GetSigningMethod a =
     (if a \<in> set [''HS256'', ''HS384'', ''HS512''] then Some (SigningMethodHMAC a)
      else if a \<in> set [''none'', ''RS256'', ''RS384'', ''RS512'', ''PS256'', ''PS384'',
                        ''PS512'', ''ES256'', ''ES384'', ''ES512'', ''EdDSA'']
      then Some (SigningMethodOther a)
      else None)"

text \<open>
  Signature bytes: the HMAC tag of an algorithm, a key and the signed content (the
  header's algorithm and the claims), or any other bytes.
\<close>

datatype SigBytes = HMACTag string string "string option" Claims | OtherBytes string

text \<open>
  A token string as the parser sees it: not three decodable segments, or a header with
  its \<open>alg\<close> entry (absent when missing or not a string), the claims, and the signature
  segment (absent when it is not base64url).
\<close>

datatype TokenString = NotCompact | Compact "string option" Claims "SigBytes option"

record Token =
  Method :: SigningMethod
  TokenClaims :: Claims
  Signature :: "SigBytes option"
  Valid :: bool

text \<open>
  A library error is the list of the sentinel errors it wraps or joins;
  \<open>errors.Is\<close> is membership.
\<close>

datatype JwtErr =
    ErrTokenMalformed | ErrTokenUnverifiable | ErrTokenSignatureInvalid
  | ErrTokenInvalidClaims | ErrTokenExpired | ErrTokenNotValidYet
  | ErrSignatureInvalid | ErrInvalidKeyType | ErrUnexpectedSigningMethod

definition errors_Is :: "JwtErr list \<Rightarrow> JwtErr \<Rightarrow> bool" where
  "errors_Is err target = (target \<in> set err)"

definition NewWithClaims :: "SigningMethod \<Rightarrow> Claims \<Rightarrow> Token" where
  "NewWithClaims method claims =
     \<lparr>Method = method, TokenClaims = claims, Signature = None, Valid = False\<rparr>"

text \<open>
  \<open>Token.SignedString\<close> with a byte-slice key: the HMAC methods sign, every other
  method refuses the key type.
\<close>

definition SignedString :: "Token \<Rightarrow> string \<Rightarrow> JwtErr list + TokenString" where
  "SignedString token key =
     (case Method token of
        SigningMethodHMAC a \<Rightarrow>
          Inr (Compact (Some a) (TokenClaims token)
                 (Some (HMACTag a key (Some a) (TokenClaims token))))
      | SigningMethodOther a \<Rightarrow> Inl [ErrInvalidKeyType])"

text \<open>\<open>SigningMethod.Verify\<close> with a byte-slice key.\<close>

definition Verify ::
  "SigningMethod \<Rightarrow> string option \<Rightarrow> Claims \<Rightarrow> SigBytes \<Rightarrow> string \<Rightarrow> JwtErr list option" where
  "Verify method alg claims sig key =
     (case method of
        SigningMethodHMAC a \<Rightarrow>
          (if sig = HMACTag a key alg claims then None else Some [ErrSignatureInvalid])
      | SigningMethodOther a \<Rightarrow> Some [ErrInvalidKeyType])"

text \<open>
  The default validator: the expiry is checked with \<open>now.Before(exp)\<close>, the not-before
  time with \<open>!now.Before(nbf)\<close>; a claim that is absent passes; the issued-at time is
  not checked. The failures are joined.
\<close>

definition verifyExpiresAt :: "Claims \<Rightarrow> Time \<Rightarrow> JwtErr list" where
  "verifyExpiresAt claims now =
     (case ExpiresAt claims of None \<Rightarrow> []
      | Some exp \<Rightarrow> if now < exp then [] else [ErrTokenExpired])"

definition verifyNotBefore :: "Claims \<Rightarrow> Time \<Rightarrow> JwtErr list" where
  "verifyNotBefore claims now =
     (case NotBefore claims of None \<Rightarrow> []
      | Some nbf \<Rightarrow> if \<not> now < nbf then [] else [ErrTokenNotValidYet])"

definition Validate :: "Claims \<Rightarrow> Time \<Rightarrow> JwtErr list option" where
  "Validate claims now =
     (let errs = verifyExpiresAt claims now @ verifyNotBefore claims now
      in if errs = [] then None else Some errs)"

text \<open>
  \<open>jwt.ParseWithClaims\<close>: parse the segments and look the method up, decode the
  signature, ask the key function for the key, verify the signature, validate the
  claims, in this order. The clock read by the validator is the argument \<open>now\<close>.
\<close>

definition ParseWithClaims ::
  "TokenString \<Rightarrow> (Token \<Rightarrow> JwtErr list + string) \<Rightarrow> Time \<Rightarrow> JwtErr list + Token" where
  "ParseWithClaims tokenString keyFunc now =
     (case tokenString of
        NotCompact \<Rightarrow> Inl [ErrTokenMalformed]
      | Compact alg claims sg \<Rightarrow>
          (case alg of
             None \<Rightarrow> Inl [ErrTokenUnverifiable]
           | Some a \<Rightarrow>
               (case GetSigningMethod a of
                  None \<Rightarrow> Inl [ErrTokenUnverifiable]
                | Some method \<Rightarrow>
                    (case sg of
                       None \<Rightarrow> Inl [ErrTokenMalformed]
                     | Some sig \<Rightarrow>
                         (let token = \<lparr>Method = method, TokenClaims = claims,
                                       Signature = Some sig, Valid = False\<rparr>
                          in case keyFunc token of
                               Inl e \<Rightarrow> Inl (ErrTokenUnverifiable # e)
                             | Inr key \<Rightarrow>
                                 (case Verify method alg claims sig key of
                                    Some e \<Rightarrow> Inl (ErrTokenSignatureInvalid # e)
                                  | None \<Rightarrow>
                                      (case Validate claims now of
                                         Some e \<Rightarrow> Inl (ErrTokenInvalidClaims # e)
                                       | None \<Rightarrow> Inr (token\<lparr>Valid := True\<rparr>))))))))"

section \<open>internal/auth/jwt.go\<close>

datatype AuthError = ErrInvalidToken | ErrExpiredToken | ErrSignFailed "JwtErr list"

record JWTManager =
  secret :: string
  duration :: Duration
  issuer :: string

definition NewJWTManager :: "string \<Rightarrow> Duration \<Rightarrow> string \<Rightarrow> JWTManager" where
  "NewJWTManager sec dur iss = \<lparr>secret = sec, duration = dur, issuer = iss\<rparr>"

text \<open>\<open>GenerateToken\<close>; the clock \<open>time.Now()\<close> is the argument \<open>now\<close>.\<close>

definition GenerateToken ::
  "JWTManager \<Rightarrow> Time \<Rightarrow> 64 word \<Rightarrow> string \<Rightarrow> AuthError + TokenString" where
  "GenerateToken m now userID email =
     (let claims = \<lparr>Issuer = issuer m,
                     ExpiresAt = Some (NewNumericDate (now + duration m)),
                     NotBefore = Some (NewNumericDate now),
                     IssuedAt = Some (NewNumericDate now),
                     UserID = userID, Email = email\<rparr>;
          token = NewWithClaims SigningMethodHS256 claims
      in case SignedString token (secret m) of
           Inl err \<Rightarrow> Inl (ErrSignFailed err)
         | Inr tokenString \<Rightarrow> Inr tokenString)"

text \<open>The key function of \<open>ValidateToken\<close>: only the HMAC family gets the secret.\<close>

definition keyFunc :: "JWTManager \<Rightarrow> Token \<Rightarrow> JwtErr list + string" where
  "keyFunc m token =
     (case Method token of
        SigningMethodHMAC a \<Rightarrow> Inr (secret m)
      | SigningMethodOther a \<Rightarrow> Inl [ErrUnexpectedSigningMethod])"

definition ValidateToken :: "JWTManager \<Rightarrow> Time \<Rightarrow> TokenString \<Rightarrow> AuthError + Claims" where
  "ValidateToken m now tokenString =
     (case ParseWithClaims tokenString (keyFunc m) now of
        Inl err \<Rightarrow> if errors_Is err ErrTokenExpired then Inl ErrExpiredToken
                   else Inl ErrInvalidToken
      | Inr token \<Rightarrow> if \<not> Valid token then Inl ErrInvalidToken
                     else Inr (TokenClaims token))"

section \<open>internal/auth/middleware.go\<close>

text \<open>
  An HTTP request, as far as the handlers read it: the headers (keys in canonical
  form), the path wildcards, the claims stored in the context under \<open>ClaimsKey\<close>, and
  the JSON body decoded into its email and password fields (absent when the body is not
  valid JSON; a field the body does not mention is the empty string).
\<close>

record Request =
  Header :: "string \<rightharpoonup> string list"
  PathValues :: "string \<rightharpoonup> string"
  Ctx :: "Claims option"
  Body :: "(string \<times> string) option"

definition Header_Get :: "(string \<rightharpoonup> string list) \<Rightarrow> string \<Rightarrow> string" where
  "Header_Get h key = (case h key of Some (v # vs) \<Rightarrow> v | _ \<Rightarrow> [])"

definition PathValue :: "Request \<Rightarrow> string \<Rightarrow> string" where
  "PathValue r name = (case PathValues r name of Some v \<Rightarrow> v | None \<Rightarrow> [])"

text \<open>
  A response: the status code and what was written. \<open>http.Error\<close> writes plain text,
  \<open>writeError\<close> a JSON object with the field \<open>error\<close>, \<open>writeJSON\<close> a user or a login
  response.
\<close>

datatype ResponseBody =
    NoBody
  | PlainText string
  | ErrorJSON string
  | UserJSON "64 word" string
  | LoginJSON TokenString "64 word" string

record Response =
  Status :: nat
  Payload :: ResponseBody

definition http_Error :: "string \<Rightarrow> nat \<Rightarrow> Response" where
  "http_Error msg code = \<lparr>Status = code, Payload = PlainText msg\<rparr>"

definition StatusOK :: nat where "StatusOK = 200"
definition StatusCreated :: nat where "StatusCreated = 201"
definition StatusNoContent :: nat where "StatusNoContent = 204"
definition StatusBadRequest :: nat where "StatusBadRequest = 400"
definition StatusUnauthorized :: nat where "StatusUnauthorized = 401"
definition StatusForbidden :: nat where "StatusForbidden = 403"
definition StatusNotFound :: nat where "StatusNotFound = 404"
definition StatusConflict :: nat where "StatusConflict = 409"
definition StatusInternalServerError :: nat where "StatusInternalServerError = 500"

text \<open>\<open>extractBearerToken\<close>: the error is its message.\<close>

definition extractBearerToken :: "Request \<Rightarrow> string + string" where
  "extractBearerToken r =
     (let authHeader = Header_Get (Header r) ''Authorization'' in
      if authHeader = [] then Inl ''authorization header is required''
      else
        (let parts = Split (CHR '' '') authHeader in
         if length parts \<noteq> 2 \<or> ToLower (parts ! 0) \<noteq> ''bearer''
         then Inl (''authorization header format must be '' @ [CHR 0x27] @
                   ''Bearer <token>'' @ [CHR 0x27])
         else Inr (parts ! 1)))"

text \<open>
  \<open>Middleware.Authenticate\<close>. The middleware holds the manager whose \<open>ValidateToken\<close> it
  calls: that method is the argument \<open>validateToken\<close>. The next handler works on a
  store \<open>w\<close>. The result carries, beside the response and the store, the token strings
  that were handed to \<open>validateToken\<close>, in order.
\<close>

definition Authenticate ::
  "(string \<Rightarrow> AuthError + Claims) \<Rightarrow> (Request \<Rightarrow> 'w \<Rightarrow> Response \<times> 'w) \<Rightarrow>
   Request \<Rightarrow> 'w \<Rightarrow> (Response \<times> 'w) \<times> string list" where
  "Authenticate validateToken next r w =
     (case extractBearerToken r of
        Inl err \<Rightarrow>
          ((http_Error ''missing or invalid authorization header'' StatusUnauthorized, w), [])
      | Inr token \<Rightarrow>
          (case validateToken token of
             Inl err \<Rightarrow>
               if err = ErrExpiredToken
               then ((http_Error ''token has expired'' StatusUnauthorized, w), [token])
               else ((http_Error ''invalid token'' StatusUnauthorized, w), [token])
           | Inr claims \<Rightarrow> (next (r\<lparr>Ctx := Some claims\<rparr>) w, [token])))"

definition GetClaimsFromContext :: "Request \<Rightarrow> Claims option" where
  "GetClaimsFromContext r = Ctx r"

section \<open>The password hashing library (golang.org/x/crypto/bcrypt)\<close>

text \<open>
  The library is not part of the repository. A digest is modelled as a term: the cost,
  the salt and the key material that went into the cipher, so two digests are equal
  exactly when all three agree. The key material of a password is what the Blowfish key
  schedule reads: the password followed by a zero byte, read cyclically for 72 bytes.
  A text that may be stored as a password hash is therefore either plain bytes or a
  digest; when a digest is itself hashed, its own text is the key material.
\<close>

datatype HashText = Bytes string | BcryptHash nat string HashText

definition MinCost :: nat where "MinCost = 4"
definition MaxCost :: nat where "MaxCost = 31"
definition DefaultCost :: nat where "DefaultCost = 10"

definition keyBytes :: "string \<Rightarrow> string" where
  "keyBytes password =
     (let ckey = password @ [CHR 0x00]
      in map (\<lambda>i. ckey ! (i mod length ckey)) [0..<72])"

fun keyMaterial :: "HashText \<Rightarrow> HashText" where
  "keyMaterial (Bytes password) = Bytes (keyBytes password)"
| "keyMaterial (BcryptHash cost salt k) = BcryptHash cost salt k"

text \<open>The length in bytes; a digest is 60 bytes long.\<close>

fun len :: "HashText \<Rightarrow> nat" where
  "len (Bytes b) = length b"
| "len (BcryptHash cost salt k) = 60"

section \<open>internal/domain/user: errors.go\<close>

text \<open>
  The errors of the user domain: the sentinels, the validation error with its field and
  message, an error of a library or of the database (by its message), and an error
  wrapped with a context by \<open>fmt.Errorf\<close> and the verb \<open>%w\<close>.
\<close>

datatype Err =
    ErrNotFound | ErrUserNotFound | ErrEmailExists | ErrInvalidCredentials
  | ErrInvalidEmail | ErrPasswordTooShort | ErrPasswordTooLong
  | ValidationError string string
  | LibError string
  | Wrap string Err

fun Err_Is :: "Err \<Rightarrow> Err \<Rightarrow> bool" where
  "Err_Is (Wrap ctx e) target = (Wrap ctx e = target \<or> Err_Is e target)"
| "Err_Is e target = (e = target)"

fun Err_As_ValidationError :: "Err \<Rightarrow> (string \<times> string) option" where
  "Err_As_ValidationError (ValidationError f m) = Some (f, m)"
| "Err_As_ValidationError (Wrap ctx e) = Err_As_ValidationError e"
| "Err_As_ValidationError e = None"

text \<open>
  \<open>bcrypt.GenerateFromPassword\<close>. The salt is read from the system's random source:
  \<open>rnd\<close> is what that read gives, absent when it fails.
\<close>

definition GenerateFromPassword :: "string option \<Rightarrow> HashText \<Rightarrow> nat \<Rightarrow> Err + HashText" where
  "GenerateFromPassword rnd password cost =
     (if len password > 72 then Inl (LibError ''bcrypt: password length exceeds 72 bytes'')
      else
        (let cost' = (if cost < MinCost then DefaultCost else cost) in
         if cost' < MinCost \<or> cost' > MaxCost
         then Inl (LibError ''crypto/bcrypt: cost outside allowed range'')
         else
           (case rnd of
              None \<Rightarrow> Inl (LibError ''crypto/rand: read failed'')
            | Some salt \<Rightarrow> Inr (BcryptHash cost' salt (keyMaterial password)))))"

text \<open>
  \<open>bcrypt.CompareHashAndPassword\<close>: the stored text must be a digest; the password is
  hashed with the digest's cost and salt and the two are compared.
\<close>

definition CompareHashAndPassword :: "HashText \<Rightarrow> HashText \<Rightarrow> Err option" where
  "CompareHashAndPassword hashedPassword password =
     (case hashedPassword of
        Bytes b \<Rightarrow> Some (LibError ''crypto/bcrypt: not a bcrypt hash'')
      | BcryptHash cost salt k \<Rightarrow>
          if BcryptHash cost salt (keyMaterial password) = BcryptHash cost salt k then None
          else Some (LibError
                 ''crypto/bcrypt: hashedPassword is not the hash of the given password''))"

text \<open>The cost a digest was made with, as \<open>bcrypt.Cost\<close> reads it.\<close>

fun Cost :: "HashText \<Rightarrow> nat option" where
  "Cost (Bytes b) = None"
| "Cost (BcryptHash cost salt k) = Some cost"

section \<open>internal/domain/user: the entity and the repository interface\<close>

text \<open>
  Modelled from the spec: the \<open>User\<close> struct, whose declaration is not among the
  sources. Its fields are the ones the repository scans and the service and the handlers
  read: the numeric id, the email, the stored password hash and the soft-delete
  timestamp (absent while the record is live). The creation and update timestamps are
  left out: no operation reads them.
\<close>

record User =
  ID :: "64 word"
  Email_user :: string
  PasswordHash :: HashText
  DeletedAt :: "Time option"

text \<open>
  The \<open>Repository\<close> interface, over a store of type \<open>'db\<close>. \<open>Create\<close> returns the
  user with its id filled in; the two finders return no user and no error when there is
  no such record.
\<close>

record 'db Repository =
  repo_Create :: "User \<Rightarrow> 'db \<Rightarrow> (Err + User) \<times> 'db"
  repo_FindByID :: "64 word \<Rightarrow> 'db \<Rightarrow> Err + User option"
  repo_FindByEmail :: "string \<Rightarrow> 'db \<Rightarrow> Err + User option"
  repo_Update :: "User \<Rightarrow> 'db \<Rightarrow> Err option \<times> 'db"
  repo_Delete :: "64 word \<Rightarrow> 'db \<Rightarrow> Err option \<times> 'db"

record 'db Service =
  repo :: "'db Repository"

definition NewService :: "'db Repository \<Rightarrow> 'db Service" where
  "NewService r = \<lparr>repo = r\<rparr>"

section \<open>internal/domain/user: the service with validation\<close>

definition MinPasswordLength :: nat where "MinPasswordLength = 8"
definition MaxPasswordLength :: nat where "MaxPasswordLength = 72"
definition bcryptCost :: nat where "bcryptCost = 12"

definition isLetter :: "char \<Rightarrow> bool" where
  "isLetter c = (c \<in> set ''abcdefghijklmnopqrstuvwxyzABCDEFGHIJKLMNOPQRSTUVWXYZ'')"

definition isAlnum :: "char \<Rightarrow> bool" where
  "isAlnum c = (isLetter c \<or> c \<in> set ''0123456789'')"

text \<open>
  \<open>emailRegex.MatchString\<close> for the pattern
  \<^verbatim>\<open>^[a-zA-Z0-9._%+-]+@[a-zA-Z0-9.-]+\.[a-zA-Z]{2,}$\<close>:
  one \<open>@\<close>; before it a non-empty run of the first class; after it a non-empty run of
  the second class, a dot, and at least two letters up to the end. The letters hold no
  dot, so the dot of the pattern is the last dot of the text.
\<close>

definition emailRegex_MatchString :: "string \<Rightarrow> bool" where
  "emailRegex_MatchString s =
     (case Split (CHR ''@'') s of
        [local, rest] \<Rightarrow>
          (let labels = Split (CHR ''.'') rest;
               tld = last labels;
               dom = take (length rest - length tld - 1) rest
           in local \<noteq> [] \<and> list_all (\<lambda>c. isAlnum c \<or> c \<in> set ''._%+-'') local \<and>
              2 \<le> length labels \<and>
              dom \<noteq> [] \<and> list_all (\<lambda>c. isAlnum c \<or> c \<in> set ''.-'') dom \<and>
              2 \<le> length tld \<and> list_all isLetter tld)
      | _ \<Rightarrow> False)"

definition validateEmail :: "string \<Rightarrow> Err option" where
  "validateEmail email =
     (if email = [] then Some (ValidationError ''email'' ''email is required'')
      else if \<not> emailRegex_MatchString email then Some ErrInvalidEmail
      else None)"

definition validatePassword :: "string \<Rightarrow> Err option" where
  "validatePassword password =
     (if password = [] then Some (ValidationError ''password'' ''password is required'')
      else if length password < MinPasswordLength then Some ErrPasswordTooShort
      else if length password > MaxPasswordLength then Some ErrPasswordTooLong
      else None)"

definition hashPassword :: "string option \<Rightarrow> string \<Rightarrow> Err + HashText" where
  "hashPassword rnd password =
     (case GenerateFromPassword rnd (Bytes password) bcryptCost of
        Inl err \<Rightarrow> Inl err
      | Inr bytes \<Rightarrow> Inr bytes)"

definition Service_Create ::
  "'db Service \<Rightarrow> string option \<Rightarrow> string \<Rightarrow> string \<Rightarrow> 'db \<Rightarrow> (Err + User) \<times> 'db" where
  "Service_Create s rnd email password db =
     (case validateEmail email of
        Some err \<Rightarrow> (Inl err, db)
      | None \<Rightarrow>
     (case validatePassword password of
        Some err \<Rightarrow> (Inl err, db)
      | None \<Rightarrow>
     (case repo_FindByEmail (repo s) email db of
        Inl err \<Rightarrow> (Inl (Wrap ''checking email existence'' err), db)
      | Inr (Some existing) \<Rightarrow> (Inl ErrEmailExists, db)
      | Inr None \<Rightarrow>
     (case hashPassword rnd password of
        Inl err \<Rightarrow> (Inl (Wrap ''hashing password'' err), db)
      | Inr hashedPassword \<Rightarrow>
          (let user = \<lparr>ID = 0, Email_user = ToLower email,
                        PasswordHash = hashedPassword, DeletedAt = None\<rparr>
           in case repo_Create (repo s) user db of
                (Inl err, db') \<Rightarrow> (Inl (Wrap ''creating user'' err), db')
              | (Inr user', db') \<Rightarrow> (Inr user', db'))))))"

definition Service_GetByID :: "'db Service \<Rightarrow> 64 word \<Rightarrow> 'db \<Rightarrow> Err + User" where
  "Service_GetByID s uid db =
     (case repo_FindByID (repo s) uid db of
        Inl err \<Rightarrow> Inl (Wrap ''finding user by id'' err)
      | Inr None \<Rightarrow> Inl ErrNotFound
      | Inr (Some user) \<Rightarrow> Inr user)"

text \<open>
  \<open>Update\<close>: the second and third steps each either return early with an error or hand
  the user on, with the email or the password hash replaced.
\<close>

definition Service_Update ::
  "'db Service \<Rightarrow> string option \<Rightarrow> 64 word \<Rightarrow> string \<Rightarrow> string \<Rightarrow> 'db \<Rightarrow>
   (Err + User) \<times> 'db" where
  "Service_Update s rnd uid email password db =
     (case repo_FindByID (repo s) uid db of
        Inl err \<Rightarrow> (Inl (Wrap ''finding user'' err), db)
      | Inr None \<Rightarrow> (Inl ErrNotFound, db)
      | Inr (Some user) \<Rightarrow>
     (case (if email \<noteq> [] \<and> email \<noteq> Email_user user
            then (case validateEmail email of
                    Some err \<Rightarrow> Inl err
                  | None \<Rightarrow>
                      (case repo_FindByEmail (repo s) email db of
                         Inl err \<Rightarrow> Inl (Wrap ''checking email'' err)
                       | Inr None \<Rightarrow> Inr (user\<lparr>Email_user := ToLower email\<rparr>)
                       | Inr (Some existing) \<Rightarrow>
                           if ID existing \<noteq> uid then Inl ErrEmailExists
                           else Inr (user\<lparr>Email_user := ToLower email\<rparr>)))
            else Inr user) of
        Inl err \<Rightarrow> (Inl err, db)
      | Inr user1 \<Rightarrow>
     (case (if password \<noteq> []
            then (case validatePassword password of
                    Some err \<Rightarrow> Inl err
                  | None \<Rightarrow>
                      (case hashPassword rnd password of
                         Inl err \<Rightarrow> Inl (Wrap ''hashing password'' err)
                       | Inr hashedPassword \<Rightarrow>
                           Inr (user1\<lparr>PasswordHash := hashedPassword\<rparr>)))
            else Inr user1) of
        Inl err \<Rightarrow> (Inl err, db)
      | Inr user2 \<Rightarrow>
          (case repo_Update (repo s) user2 db of
             (Some err, db') \<Rightarrow> (Inl (Wrap ''updating user'' err), db')
           | (None, db') \<Rightarrow> (Inr user2, db')))))"

definition Service_Delete :: "'db Service \<Rightarrow> 64 word \<Rightarrow> 'db \<Rightarrow> Err option \<times> 'db" where
  "Service_Delete s uid db =
     (case repo_FindByID (repo s) uid db of
        Inl err \<Rightarrow> (Some (Wrap ''finding user'' err), db)
      | Inr None \<Rightarrow> (Some ErrNotFound, db)
      | Inr (Some user) \<Rightarrow>
          (case repo_Delete (repo s) uid db of
             (Some err, db') \<Rightarrow> (Some (Wrap ''deleting user'' err), db')
           | (None, db') \<Rightarrow> (None, db')))"

definition Service_Authenticate :: "'db Service \<Rightarrow> string \<Rightarrow> string \<Rightarrow> 'db \<Rightarrow> Err + User" where
  "Service_Authenticate s email password db =
     (case repo_FindByEmail (repo s) (ToLower email) db of
        Inl err \<Rightarrow> Inl (Wrap ''finding user'' err)
      | Inr None \<Rightarrow> Inl ErrInvalidCredentials
      | Inr (Some user) \<Rightarrow>
          (case CompareHashAndPassword (PasswordHash user) (Bytes password) of
             Some err \<Rightarrow> Inl ErrInvalidCredentials
           | None \<Rightarrow> Inr user))"

section \<open>internal/domain/user/service.go: the service without validation\<close>

text \<open>
  The second implementation of the service, which calls the hashing library directly.
  Its functions carry the prefix \<open>Basic\<close>. The user handed to \<open>Create\<close> and \<open>Update\<close>
  holds the plaintext password in its \<open>PasswordHash\<close> field.
\<close>

definition BasicService_Login :: "'db Service \<Rightarrow> string \<Rightarrow> string \<Rightarrow> 'db \<Rightarrow> Err + User" where
  "BasicService_Login s email password db =
     (case repo_FindByEmail (repo s) email db of
        Inl err \<Rightarrow> Inl err
      | Inr None \<Rightarrow> Inl ErrInvalidCredentials
      | Inr (Some u) \<Rightarrow>
          (case CompareHashAndPassword (PasswordHash u) (Bytes password) of
             Some err \<Rightarrow> Inl ErrInvalidCredentials
           | None \<Rightarrow> Inr u))"

definition BasicService_Create ::
  "'db Service \<Rightarrow> string option \<Rightarrow> User \<Rightarrow> 'db \<Rightarrow> (Err + User) \<times> 'db" where
  "BasicService_Create s rnd u db =
     (case repo_FindByEmail (repo s) (Email_user u) db of
        Inr (Some existing) \<Rightarrow> (Inl ErrEmailExists, db)
      | _ \<Rightarrow>
          (case GenerateFromPassword rnd (PasswordHash u) DefaultCost of
             Inl err \<Rightarrow> (Inl err, db)
           | Inr hashedPassword \<Rightarrow>
               repo_Create (repo s) (u\<lparr>PasswordHash := hashedPassword\<rparr>) db))"

definition BasicService_GetByID :: "'db Service \<Rightarrow> 64 word \<Rightarrow> 'db \<Rightarrow> Err + User" where
  "BasicService_GetByID s uid db =
     (case repo_FindByID (repo s) uid db of
        Inl err \<Rightarrow> Inl err
      | Inr None \<Rightarrow> Inl ErrUserNotFound
      | Inr (Some user) \<Rightarrow> Inr user)"

definition BasicService_Update ::
  "'db Service \<Rightarrow> string option \<Rightarrow> User \<Rightarrow> 'db \<Rightarrow> Err option \<times> 'db" where
  "BasicService_Update s rnd u db =
     (case GenerateFromPassword rnd (PasswordHash u) DefaultCost of
        Inl err \<Rightarrow> (Some err, db)
      | Inr hashedPassword \<Rightarrow>
          repo_Update (repo s) (u\<lparr>PasswordHash := hashedPassword\<rparr>) db)"

definition BasicService_Delete :: "'db Service \<Rightarrow> 64 word \<Rightarrow> 'db \<Rightarrow> Err option \<times> 'db" where
  "BasicService_Delete s uid db = repo_Delete (repo s) uid db"

section \<open>internal/repository/mysql\<close>

text \<open>
  The MySQL repository, on a table held in memory: the rows in insertion order and the
  next value of the auto-increment column. The statements are the ones of the source:
  the finders and the two updates only touch rows whose \<open>deleted_at\<close> is null; the
  insert fails on the unique key of the email column, which also counts deleted rows.
  The table's collation compares emails without regard to case, here on the ASCII
  letters. A failure of the connection is not part of this model. The clock of
  \<open>NOW()\<close> is the argument \<open>now\<close>.
\<close>

record DB =
  rows :: "User list"
  autoIncrement :: "64 word"

definition sameEmail :: "string \<Rightarrow> string \<Rightarrow> bool" where
  "sameEmail a b = (ToLower a = ToLower b)"

definition UserRepository_Create :: "User \<Rightarrow> DB \<Rightarrow> (Err + User) \<times> DB" where
  "UserRepository_Create u db =
     (if list_ex (\<lambda>row. sameEmail (Email_user row) (Email_user u)) (rows db)
      then (Inl (Wrap ''executing insert'' (LibError ''Error 1062: Duplicate entry'')), db)
      else
        (let uid = autoIncrement db
         in (Inr (u\<lparr>ID := uid\<rparr>),
             db\<lparr>rows := rows db @ [u\<lparr>ID := uid, DeletedAt := None\<rparr>],
                autoIncrement := uid + 1\<rparr>)))"

definition UserRepository_FindByID :: "64 word \<Rightarrow> DB \<Rightarrow> Err + User option" where
  "UserRepository_FindByID uid db =
     Inr (find (\<lambda>row. ID row = uid \<and> DeletedAt row = None) (rows db))"

definition UserRepository_FindByEmail :: "string \<Rightarrow> DB \<Rightarrow> Err + User option" where
  "UserRepository_FindByEmail email db =
     Inr (find (\<lambda>row. sameEmail (Email_user row) email \<and> DeletedAt row = None) (rows db))"

definition UserRepository_Update :: "User \<Rightarrow> DB \<Rightarrow> Err option \<times> DB" where
  "UserRepository_Update u db =
     (None,
      db\<lparr>rows := map (\<lambda>row. if ID row = ID u \<and> DeletedAt row = None
                             then row\<lparr>Email_user := Email_user u,
                                      PasswordHash := PasswordHash u\<rparr>
                             else row) (rows db)\<rparr>)"

definition UserRepository_Delete :: "Time \<Rightarrow> 64 word \<Rightarrow> DB \<Rightarrow> Err option \<times> DB" where
  "UserRepository_Delete now uid db =
     (None,
      db\<lparr>rows := map (\<lambda>row. if ID row = uid \<and> DeletedAt row = None
                             then row\<lparr>DeletedAt := Some now\<rparr>
                             else row) (rows db)\<rparr>)"

definition NewUserRepository :: "Time \<Rightarrow> DB Repository" where
  "NewUserRepository now =
     \<lparr>repo_Create = UserRepository_Create,
      repo_FindByID = UserRepository_FindByID,
      repo_FindByEmail = UserRepository_FindByEmail,
      repo_Update = UserRepository_Update,
      repo_Delete = UserRepository_Delete now\<rparr>"

section \<open>internal/handler/http/user_handler.go\<close>

record 'db UserHandler =
  service :: "'db Service"
  jwtManager :: JWTManager

definition NewUserHandler :: "'db Service \<Rightarrow> JWTManager \<Rightarrow> 'db UserHandler" where
  "NewUserHandler svc m = \<lparr>service = svc, jwtManager = m\<rparr>"

definition writeError :: "nat \<Rightarrow> string \<Rightarrow> Response" where
  "writeError status message = \<lparr>Status = status, Payload = ErrorJSON message\<rparr>"

definition handleServiceError :: "Err \<Rightarrow> Response" where
  "handleServiceError err =
     (if Err_Is err ErrNotFound then writeError StatusNotFound ''user not found''
      else if Err_Is err ErrEmailExists then writeError StatusConflict ''email already exists''
      else if Err_Is err ErrInvalidCredentials
        then writeError StatusUnauthorized ''invalid email or password''
      else if Err_Is err ErrInvalidEmail then writeError StatusBadRequest ''invalid email format''
      else if Err_Is err ErrPasswordTooShort
        then writeError StatusBadRequest ''password must be at least 8 characters''
      else if Err_Is err ErrPasswordTooLong
        then writeError StatusBadRequest ''password must be at most 72 characters''
      else
        (case Err_As_ValidationError err of
           Some (field, message) \<Rightarrow> writeError StatusBadRequest (field @ '': '' @ message)
         | None \<Rightarrow> writeError StatusInternalServerError ''internal server error''))"

text \<open>\<open>register\<close> handles \<open>POST /register\<close>.\<close>

definition UserHandler_register ::
  "'db UserHandler \<Rightarrow> string option \<Rightarrow> Request \<Rightarrow> 'db \<Rightarrow> Response \<times> 'db" where
  "UserHandler_register h rnd r db =
     (case Body r of
        None \<Rightarrow> (writeError StatusBadRequest ''invalid JSON format'', db)
      | Some (email, password) \<Rightarrow>
          (case Service_Create (service h) rnd email password db of
             (Inl err, db') \<Rightarrow> (handleServiceError err, db')
           | (Inr newUser, db') \<Rightarrow>
               (\<lparr>Status = StatusCreated,
                 Payload = UserJSON (ID newUser) (Email_user newUser)\<rparr>, db')))"

text \<open>\<open>login\<close> handles \<open>POST /login\<close>; \<open>now\<close> is the clock read by \<open>GenerateToken\<close>.\<close>

definition UserHandler_login ::
  "'db UserHandler \<Rightarrow> Time \<Rightarrow> Request \<Rightarrow> 'db \<Rightarrow> Response \<times> 'db" where
  "UserHandler_login h now r db =
     (case Body r of
        None \<Rightarrow> (writeError StatusBadRequest ''invalid JSON format'', db)
      | Some (email, password) \<Rightarrow>
          (case Service_Authenticate (service h) email password db of
             Inl err \<Rightarrow> (handleServiceError err, db)
           | Inr authenticatedUser \<Rightarrow>
               (case GenerateToken (jwtManager h) now (ID authenticatedUser)
                       (Email_user authenticatedUser) of
                  Inl err \<Rightarrow>
                    (writeError StatusInternalServerError ''failed to generate token'', db)
                | Inr token \<Rightarrow>
                    (\<lparr>Status = StatusOK,
                      Payload = LoginJSON token (ID authenticatedUser)
                                  (Email_user authenticatedUser)\<rparr>, db))))"

text \<open>\<open>get\<close> handles \<open>GET /users/{id}\<close>.\<close>

definition UserHandler_get :: "'db UserHandler \<Rightarrow> Request \<Rightarrow> 'db \<Rightarrow> Response \<times> 'db" where
  "UserHandler_get h r db =
     (case ParseUint (PathValue r ''id'') of
        None \<Rightarrow> (writeError StatusBadRequest ''invalid user ID'', db)
      | Some uid \<Rightarrow>
          (case Service_GetByID (service h) uid db of
             Inl err \<Rightarrow> (handleServiceError err, db)
           | Inr foundUser \<Rightarrow>
               (\<lparr>Status = StatusOK,
                 Payload = UserJSON (ID foundUser) (Email_user foundUser)\<rparr>, db)))"

text \<open>\<open>update\<close> handles \<open>PUT /users/{id}\<close>.\<close>

definition UserHandler_update ::
  "'db UserHandler \<Rightarrow> string option \<Rightarrow> Request \<Rightarrow> 'db \<Rightarrow> Response \<times> 'db" where
  "UserHandler_update h rnd r db =
     (case ParseUint (PathValue r ''id'') of
        None \<Rightarrow> (writeError StatusBadRequest ''invalid user ID'', db)
      | Some uid \<Rightarrow>
          (case GetClaimsFromContext r of
             None \<Rightarrow> (writeError StatusUnauthorized ''unauthorized'', db)
           | Some claims \<Rightarrow>
               if UserID claims \<noteq> uid
               then (writeError StatusForbidden ''you can only update your own profile'', db)
               else
                 (case Body r of
                    None \<Rightarrow> (writeError StatusBadRequest ''invalid JSON format'', db)
                  | Some (email, password) \<Rightarrow>
                      (case Service_Update (service h) rnd uid email password db of
                         (Inl err, db') \<Rightarrow> (handleServiceError err, db')
                       | (Inr updatedUser, db') \<Rightarrow>
                           (\<lparr>Status = StatusOK,
                             Payload = UserJSON (ID updatedUser) (Email_user updatedUser)\<rparr>,
                            db')))))"

text \<open>\<open>delete\<close> handles \<open>DELETE /users/{id}\<close>.\<close>

definition UserHandler_delete :: "'db UserHandler \<Rightarrow> Request \<Rightarrow> 'db \<Rightarrow> Response \<times> 'db" where
  "UserHandler_delete h r db =
     (case ParseUint (PathValue r ''id'') of
        None \<Rightarrow> (writeError StatusBadRequest ''invalid user ID'', db)
      | Some uid \<Rightarrow>
          (case GetClaimsFromContext r of
             None \<Rightarrow> (writeError StatusUnauthorized ''unauthorized'', db)
           | Some claims \<Rightarrow>
               if UserID claims \<noteq> uid
               then (writeError StatusForbidden ''you can only delete your own account'', db)
               else
                 (case Service_Delete (service h) uid db of
                    (Some err, db') \<Rightarrow> (handleServiceError err, db')
                  | (None, db') \<Rightarrow> (\<lparr>Status = StatusNoContent, Payload = NoBody\<rparr>, db'))))"

text \<open>\<open>me\<close> handles \<open>GET /me\<close>.\<close>

definition UserHandler_me :: "'db UserHandler \<Rightarrow> Request \<Rightarrow> 'db \<Rightarrow> Response \<times> 'db" where
  "UserHandler_me h r db =
     (case GetClaimsFromContext r of
        None \<Rightarrow> (writeError StatusUnauthorized ''unauthorized'', db)
      | Some claims \<Rightarrow>
          (case Service_GetByID (service h) (UserID claims) db of
             Inl err \<Rightarrow> (handleServiceError err, db)
           | Inr currentUser \<Rightarrow>
               (\<lparr>Status = StatusOK,
                 Payload = UserJSON (ID currentUser) (Email_user currentUser)\<rparr>, db)))"

text \<open>
  \<open>RegisterRoutes\<close>: the six patterns and the handler each one is bound to. The two
  public routes hand no token to the manager; the four others are wrapped in the
  middleware. The clock and the random source the handlers read are arguments.
\<close>

datatype Route =
    POST_register | POST_login | GET_users_id | PUT_users_id | DELETE_users_id | GET_me

definition AuthenticateFunc ::
  "(string \<Rightarrow> AuthError + Claims) \<Rightarrow> (Request \<Rightarrow> 'w \<Rightarrow> Response \<times> 'w) \<Rightarrow>
   Request \<Rightarrow> 'w \<Rightarrow> (Response \<times> 'w) \<times> string list" where
  "AuthenticateFunc validateToken next = Authenticate validateToken next"

definition RegisterRoutes ::
  "'db UserHandler \<Rightarrow> (string \<Rightarrow> AuthError + Claims) \<Rightarrow> Time \<Rightarrow> string option \<Rightarrow>
   Route \<Rightarrow> Request \<Rightarrow> 'db \<Rightarrow> (Response \<times> 'db) \<times> string list" where
  "RegisterRoutes h validateToken now rnd route r db =
     (case route of
        POST_register \<Rightarrow> (UserHandler_register h rnd r db, [])
      | POST_login \<Rightarrow> (UserHandler_login h now r db, [])
      | GET_users_id \<Rightarrow> AuthenticateFunc validateToken (UserHandler_get h) r db
      | PUT_users_id \<Rightarrow> AuthenticateFunc validateToken (UserHandler_update h rnd) r db
      | DELETE_users_id \<Rightarrow> AuthenticateFunc validateToken (UserHandler_delete h) r db
      | GET_me \<Rightarrow> AuthenticateFunc validateToken (UserHandler_me h) r db)"

section \<open>Issuing and validating tokens\<close>

lemma GenerateToken_eq:
  "GenerateToken m t0 uid email =
     Inr (Compact (Some ''HS256'')
            \<lparr>Issuer = issuer m, ExpiresAt = Some (NewNumericDate (t0 + duration m)),
             NotBefore = Some (NewNumericDate t0), IssuedAt = Some (NewNumericDate t0),
             UserID = uid, Email = email\<rparr>
            (Some (HMACTag ''HS256'' (secret m) (Some ''HS256'')
               \<lparr>Issuer = issuer m, ExpiresAt = Some (NewNumericDate (t0 + duration m)),
                NotBefore = Some (NewNumericDate t0), IssuedAt = Some (NewNumericDate t0),
                UserID = uid, Email = email\<rparr>)))"
  by (simp add: GenerateToken_def SignedString_def NewWithClaims_def SigningMethodHS256_def
        Let_def)

lemma ParseWithClaims_signed:
  "ParseWithClaims
      (Compact (Some ''HS256'') c (Some (HMACTag ''HS256'' (secret m) (Some ''HS256'') c)))
      (keyFunc m) t =
     (case Validate c t of
        Some e \<Rightarrow> Inl (ErrTokenInvalidClaims # e)
      | None \<Rightarrow> Inr \<lparr>Method = SigningMethodHMAC ''HS256'', TokenClaims = c,
                      Signature = Some (HMACTag ''HS256'' (secret m) (Some ''HS256'') c),
                      Valid = True\<rparr>)"
  by (simp add: ParseWithClaims_def GetSigningMethod_def keyFunc_def Verify_def Let_def
        split: option.splits)

text \<open>
  Claim C1, as the code has it. \<open>GenerateToken\<close> at time \<open>t0\<close> always returns a token.
  Its claims carry the user id, the email and the issuer, with issued-at and not-before
  equal to \<open>t0\<close> truncated to whole seconds and expires-at equal to \<open>t0\<close> plus the
  configured duration, truncated to whole seconds. \<open>ValidateToken\<close> at time \<open>t\<close> returns
  \<open>ErrExpiredToken\<close> when \<open>t\<close> is at or after that expires-at, otherwise
  \<open>ErrInvalidToken\<close> when \<open>t\<close> is before that not-before, and otherwise the claims,
  unchanged. Inside the library the two failures are told apart: the error of
  \<open>ParseWithClaims\<close> joins \<open>ErrTokenExpired\<close> in the first case and
  \<open>ErrTokenNotValidYet\<close> in the second.
\<close>

theorem C1_issue_then_verify:
  "\<exists>tok c. GenerateToken m t0 uid email = Inr tok \<and>
     UserID c = uid \<and> Email c = email \<and> Issuer c = issuer m \<and>
     IssuedAt c = Some (NewNumericDate t0) \<and>
     NotBefore c = Some (NewNumericDate t0) \<and>
     ExpiresAt c = Some (NewNumericDate (t0 + duration m)) \<and>
     ValidateToken m t tok =
       (if NewNumericDate (t0 + duration m) \<le> t then Inl ErrExpiredToken
        else if t < NewNumericDate t0 then Inl ErrInvalidToken
        else Inr c) \<and>
     ParseWithClaims tok (keyFunc m) t =
       (if NewNumericDate (t0 + duration m) \<le> t \<or> t < NewNumericDate t0
        then Inl (ErrTokenInvalidClaims #
                  (if NewNumericDate (t0 + duration m) \<le> t then [ErrTokenExpired] else []) @
                  (if t < NewNumericDate t0 then [ErrTokenNotValidYet] else []))
        else Inr \<lparr>Method = SigningMethodHMAC ''HS256'', TokenClaims = c,
                  Signature = Some (HMACTag ''HS256'' (secret m) (Some ''HS256'') c),
                  Valid = True\<rparr>)"
proof -
  let ?c = "\<lparr>Issuer = issuer m, ExpiresAt = Some (NewNumericDate (t0 + duration m)),
             NotBefore = Some (NewNumericDate t0), IssuedAt = Some (NewNumericDate t0),
             UserID = uid, Email = email\<rparr>"
  let ?tok = "Compact (Some ''HS256'') ?c
                (Some (HMACTag ''HS256'' (secret m) (Some ''HS256'') ?c))"
  have gen: "GenerateToken m t0 uid email = Inr ?tok"
    by (rule GenerateToken_eq)
  have parse: "ParseWithClaims ?tok (keyFunc m) t =
       (if NewNumericDate (t0 + duration m) \<le> t \<or> t < NewNumericDate t0
        then Inl (ErrTokenInvalidClaims #
                  (if NewNumericDate (t0 + duration m) \<le> t then [ErrTokenExpired] else []) @
                  (if t < NewNumericDate t0 then [ErrTokenNotValidYet] else []))
        else Inr \<lparr>Method = SigningMethodHMAC ''HS256'', TokenClaims = ?c,
                  Signature = Some (HMACTag ''HS256'' (secret m) (Some ''HS256'') ?c),
                  Valid = True\<rparr>)"
    by (simp add: ParseWithClaims_signed Validate_def verifyExpiresAt_def verifyNotBefore_def)
  have val: "ValidateToken m t ?tok =
       (if NewNumericDate (t0 + duration m) \<le> t then Inl ErrExpiredToken
        else if t < NewNumericDate t0 then Inl ErrInvalidToken
        else Inr ?c)"
    unfolding ValidateToken_def parse by (simp add: errors_Is_def)
  show ?thesis
    apply (rule exI [of _ ?tok])
    apply (rule exI [of _ ?c])
    apply (simp only: gen parse val)
    apply simp
    done
qed

text \<open>
  Claim C1, as stated, takes the not-before time to be \<open>t0\<close> and the expires-at time to
  be \<open>t0\<close> plus the duration. With a lifetime of fifteen minutes, a token issued half a
  second after a full second is refused as expired 900.2 seconds after that full second,
  which is 0.3 seconds before \<open>t0\<close> plus the duration.
\<close>

theorem C1_issue_then_verify_counterexample:
  "GenerateToken (NewJWTManager ''k'' (15 * Minute) ''go-basics'') 1700000000500000000 7
       ''a@b.co''
     = Inr (Compact (Some ''HS256'')
             \<lparr>Issuer = ''go-basics'', ExpiresAt = Some 1700000900000000000,
              NotBefore = Some 1700000000000000000, IssuedAt = Some 1700000000000000000,
              UserID = 7, Email = ''a@b.co''\<rparr>
             (Some (HMACTag ''HS256'' ''k'' (Some ''HS256'')
                \<lparr>Issuer = ''go-basics'', ExpiresAt = Some 1700000900000000000,
                 NotBefore = Some 1700000000000000000, IssuedAt = Some 1700000000000000000,
                 UserID = 7, Email = ''a@b.co''\<rparr>))) \<and>
   (1700000000500000000 :: Time) \<le> 1700000900200000000 \<and>
   1700000900200000000
     < 1700000000500000000 + duration (NewJWTManager ''k'' (15 * Minute) ''go-basics'') \<and>
   ValidateToken (NewJWTManager ''k'' (15 * Minute) ''go-basics'') 1700000900200000000
     (Compact (Some ''HS256'')
             \<lparr>Issuer = ''go-basics'', ExpiresAt = Some 1700000900000000000,
              NotBefore = Some 1700000000000000000, IssuedAt = Some 1700000000000000000,
              UserID = 7, Email = ''a@b.co''\<rparr>
             (Some (HMACTag ''HS256'' ''k'' (Some ''HS256'')
                \<lparr>Issuer = ''go-basics'', ExpiresAt = Some 1700000900000000000,
                 NotBefore = Some 1700000000000000000, IssuedAt = Some 1700000000000000000,
                 UserID = 7, Email = ''a@b.co''\<rparr>)))
     = Inl ErrExpiredToken"
  by (simp add: GenerateToken_eq ValidateToken_def ParseWithClaims_def GetSigningMethod_def
        keyFunc_def Verify_def NewJWTManager_def Validate_def verifyExpiresAt_def
        verifyNotBefore_def errors_Is_def NewNumericDate_def Second_def Minute_def)

end
